theory Spec2Isabelle
  imports Main
begin

section \<open>Tables, faults and the outside world\<close>

text \<open>
  A cell of a query result, as pandas holds it: a 64-bit integer, a double (sign,
  mantissa and binary exponent, so that the value is exactly
  \<open>\<plusminus> mantissa * 2 ^ exponent\<close>), not-a-number, an infinity (the flag says negative), a
  text or \<open>None\<close>.
\<close>

datatype cell =
    IntV int
  | FloatV bool nat int
  | NanV
  | InfV bool
  | TextV string
  | NoneV

text \<open>A DataFrame: ordered column names and ordered rows.\<close>

datatype table = Table (columns: "string list") (rows: "cell list list")

text \<open>\<open>pd.DataFrame()\<close> and \<open>df.empty\<close> (some axis has length zero).\<close>

definition empty_DataFrame :: table where
  "empty_DataFrame = Table [] []"

definition is_empty :: "table \<Rightarrow> bool" where
  "is_empty df = (columns df = [] \<or> rows df = [])"

text \<open>
  The exceptions the two programs can meet, each with its message (\<open>str(e)\<close>). All of
  them are subclasses of \<open>Exception\<close>. \<open>OperationalError\<close> is \<open>sqlite3.OperationalError\<close>;
  \<open>DatabaseError\<close> is \<open>pandas.errors.DatabaseError\<close>, which is what \<open>pd.read_sql_query\<close>
  raises when the database rejects the query (a view that does not exist): pandas catches
  the exception of sqlite3 and raises its own, which is not a subclass of
  \<open>sqlite3.OperationalError\<close>.
\<close>

datatype fault =
    OperationalError string
  | DatabaseError string
  | FileNotFoundError string
  | KeyError string
  | IndexError string
  | ValueError string
  | TypeError string
  | OverflowError string
  | OtherError string

fun str :: "fault \<Rightarrow> string" where
  "str (OperationalError m) = m"
| "str (DatabaseError m) = m"
| "str (FileNotFoundError m) = m"
| "str (KeyError m) = m"
| "str (IndexError m) = m"
| "str (ValueError m) = m"
| "str (TypeError m) = m"
| "str (OverflowError m) = m"
| "str (OtherError m) = m"

text \<open>The elements the dashboard puts on the page, one constructor per Streamlit call.\<close>

datatype widget =
    PageConfig string
  | Title string
  | Markdown string
  | SidebarHeader string
  | ErrorBox string
  | InfoBox string
  | Header string
  | Subheader string
  | Columns nat
  | Tabs "string list"
  | Metric string string
  | PlotlyChart string table
  | Dataframe table
  | Selectbox string "string list"
  | DownloadButton string table string

text \<open>
  What a run does to the outside, in the order it does it. \<open>Connect db h\<close> is a
  successful \<open>sqlite3.connect(db)\<close> that returned the connection \<open>h\<close>; \<open>Query h sql\<close> is
  \<open>pd.read_sql_query(sql, h)\<close>; \<open>ToCsv path df\<close> is \<open>df.to_csv(path, index=False)\<close> having
  written the file; \<open>Ui\<close> is an element shown on the page.
\<close>

datatype event =
    Print string
  | Mkdir string
  | Connect string nat
  | Query nat string
  | Close nat
  | ToCsv string table
  | Ui widget

text \<open>
  The outside world, which the programs only read: which paths exist, and what each
  library call answers. \<open>read_sql\<close> is the answer of the database to a query text, a
  table or the exception raised.
\<close>

record env =
  path_exists :: "string \<Rightarrow> bool"
  mkdir_fault :: "string \<Rightarrow> fault option"
  connect_fault :: "string \<Rightarrow> fault option"
  read_sql :: "string \<Rightarrow> fault + table"
  to_csv_fault :: "string \<Rightarrow> fault option"
  abspath :: "string \<Rightarrow> string"

text \<open>The state a run threads: the effects so far and the next fresh connection.\<close>

record world =
  trace :: "event list"
  next_handle :: nat

definition emit :: "event \<Rightarrow> 'a world_scheme \<Rightarrow> 'a world_scheme" where
  "emit e w = w\<lparr>trace := trace w @ [e]\<rparr>"

definition print :: "string \<Rightarrow> 'a world_scheme \<Rightarrow> 'a world_scheme" where
  "print s = emit (Print s)"

text \<open>\<open>sqlite3.connect\<close>: a fresh connection, or the exception with nothing opened.\<close>

definition connect :: "env \<Rightarrow> string \<Rightarrow> 'a world_scheme \<Rightarrow> (fault + nat) \<times> 'a world_scheme" where
  "connect e db w =
     (case connect_fault e db of
        Some f \<Rightarrow> (Inl f, w)
      | None \<Rightarrow>
          (Inr (next_handle w),
           emit (Connect db (next_handle w)) (w\<lparr>next_handle := Suc (next_handle w)\<rparr>)))"

definition read_sql_query :: "env \<Rightarrow> string \<Rightarrow> nat \<Rightarrow> 'a world_scheme \<Rightarrow> (fault + table) \<times> 'a world_scheme" where
  "read_sql_query e sql conn w = (read_sql e sql, emit (Query conn sql) w)"

definition close :: "nat \<Rightarrow> 'a world_scheme \<Rightarrow> 'a world_scheme" where
  "close conn = emit (Close conn)"

section \<open>Python's text formatting\<close>

definition digit_char :: "nat \<Rightarrow> char" where
  "digit_char d = char_of (48 + d)"

fun str_nat :: "nat \<Rightarrow> string" where
  "str_nat n = (if n < 10 then [digit_char n] else str_nat (n div 10) @ [digit_char (n mod 10)])"

declare str_nat.simps [simp del]

definition ljust :: "nat \<Rightarrow> string \<Rightarrow> string" where
  "ljust n s = s @ replicate (n - length s) CHR '' ''"

definition rjust :: "nat \<Rightarrow> string \<Rightarrow> string" where
  "rjust n s = replicate (n - length s) CHR '' '' @ s"

text \<open>\<open>os.path.join\<close> of two components (POSIX).\<close>

definition os_path_join :: "string \<Rightarrow> string \<Rightarrow> string" where
  "os_path_join a b =
     (if b \<noteq> [] \<and> hd b = CHR ''/'' then b
      else if a = [] \<or> last a = CHR ''/'' then a @ b
      else a @ ''/'' @ b)"

section \<open>export\_views.py\<close>

definition DB_FILE :: string where
  "DB_FILE = ''bank.db''"

definition RESULTS_DIR :: string where
  "RESULTS_DIR = ''results''"

definition VIEWS :: "string list" where
  "VIEWS =
     [''churn_by_branch'',
      ''churn_by_account_type'',
      ''income_band_churn'',
      ''avg_balance_by_branch'',
      ''avg_balance_by_account_type'',
      ''balance_by_tenure'',
      ''account_type_distribution'',
      ''branch_distribution'',
      ''high_value_customers'',
      ''overall_kpis'',
      ''branch_performance'']"

text \<open>
  \<open>create_results_folder\<close>: \<open>Path(RESULTS_DIR).mkdir(exist_ok=True)\<close>, whose exception
  nothing catches, then the line that reports it.
\<close>

definition create_results_folder :: "env \<Rightarrow> world \<Rightarrow> fault option \<times> world" where
  "create_results_folder e w =
     (case mkdir_fault e RESULTS_DIR of
        Some f \<Rightarrow> (Some f, w)
      | None \<Rightarrow>
          (None,
           print (''[OK] Results folder '' @ [CHR 0x27] @ RESULTS_DIR @ [CHR 0x27] @ '' ready'')
             (emit (Mkdir RESULTS_DIR) w)))"

text \<open>The two \<open>except\<close> clauses of \<open>export_view_to_csv\<close>, in the source's order.\<close>

definition export_except :: "string \<Rightarrow> fault \<Rightarrow> world \<Rightarrow> bool \<times> world" where
  "export_except view_name f w =
     (case f of
        OperationalError m \<Rightarrow>
          (False,
           print ''    Hint: Make sure you've run views.sql first''
             (print (''  [ERROR] Error exporting '' @ view_name @ '': View does not exist'') w))
      | _ \<Rightarrow>
          (False, print (''  [ERROR] Error exporting '' @ view_name @ '': '' @ str f) w))"

definition ok_line :: "string \<Rightarrow> nat \<Rightarrow> string \<Rightarrow> string" where
  "ok_line view_name num_rows csv_path =
     ''  [OK] Exported '' @ ljust 30 view_name @ '' -> '' @ rjust 3 (str_nat num_rows)
       @ '' rows -> '' @ csv_path"

definition export_view_to_csv :: "env \<Rightarrow> nat \<Rightarrow> string \<Rightarrow> world \<Rightarrow> bool \<times> world" where
  "export_view_to_csv e conn view_name w =
     (let query = ''SELECT * FROM '' @ view_name in
      case read_sql_query e query conn w of
        (Inl f, w1) \<Rightarrow> export_except view_name f w1
      | (Inr df, w1) \<Rightarrow>
          (let csv_path = os_path_join RESULTS_DIR (view_name @ ''.csv'') in
           case to_csv_fault e csv_path of
             Some f \<Rightarrow> export_except view_name f w1
           | None \<Rightarrow>
               (let w2 = emit (ToCsv csv_path df) w1;
                    num_rows = length (rows df)
                in (True, print (ok_line view_name num_rows csv_path) w2))))"

text \<open>The \<open>for view in VIEWS\<close> loop with its counter.\<close>

fun export_loop :: "env \<Rightarrow> nat \<Rightarrow> string list \<Rightarrow> nat \<Rightarrow> world \<Rightarrow> nat \<times> world" where
  "export_loop e conn [] success_count w = (success_count, w)"
| "export_loop e conn (view # views) success_count w =
     (case export_view_to_csv e conn view w of
        (ok, w') \<Rightarrow> export_loop e conn views (if ok then success_count + 1 else success_count) w')"

definition rule70 :: "char \<Rightarrow> string" where
  "rule70 c = replicate 70 c"

definition summary_line :: "nat \<Rightarrow> string" where
  "summary_line success_count =
     [CHR 0x0A] @ ''Summary: '' @ str_nat success_count @ ''/'' @ str_nat (length VIEWS)
       @ '' views exported successfully''"

text \<open>
  \<open>main\<close>. The result is the exception that leaves it, if one does (only the one of
  \<open>create_results_folder\<close>, which is outside the \<open>try\<close>), and the world after.
\<close>

definition main :: "env \<Rightarrow> world \<Rightarrow> fault option \<times> world" where
  "main e w0 =
     (let w1 = print [] (print (rule70 CHR ''='') (print ''Bank Customer Analytics - View Exporter''
                 (print (rule70 CHR ''='') w0)))
      in
      if \<not> path_exists e DB_FILE then
        (None,
         print ''  Make sure bank.db exists in the current directory.''
           (print (''[ERROR] Database file '' @ [CHR 0x27] @ DB_FILE @ [CHR 0x27] @ '' not found!'') w1))
      else
        (case create_results_folder e w1 of
           (Some f, w2) \<Rightarrow> (Some f, w2)
         | (None, w2) \<Rightarrow>
             (case connect e DB_FILE (print [] w2) of
                (Inl f, w3) \<Rightarrow>
                  (None, print (''[ERROR] Error connecting to database: '' @ str f) w3)
              | (Inr conn, w3) \<Rightarrow>
                  (let w4 = print (rule70 CHR ''-'') (print ''Exporting views to CSV...''
                              (print [] (print (''[OK] Connected to '' @ DB_FILE) w3)))
                   in
                   case export_loop e conn VIEWS 0 w4 of
                     (success_count, w5) \<Rightarrow>
                       (None,
                        print (rule70 CHR ''='')
                          (print (''CSV files saved to: '' @ abspath e RESULTS_DIR @ ''/'')
                            (print (summary_line success_count)
                              (print (rule70 CHR ''-'') (close conn w5)))))))))"

section \<open>Numbers as text\<close>

text \<open>Thousands separators: a comma before every group of three digits, from the right.\<close>

fun group3 :: "string \<Rightarrow> string" where
  "group3 ds =
     (if length ds \<le> 3 then ds
      else group3 (take (length ds - 3) ds) @ '','' @ drop (length ds - 3) ds)"

declare group3.simps [simp del]

text \<open>\<open>f"{n:,}"\<close> for a Python \<open>int\<close>.\<close>

definition format_int_comma :: "int \<Rightarrow> string" where
  "format_int_comma n = (if n < 0 then ''-'' else []) @ group3 (str_nat (nat \<bar>n\<bar>))"

text \<open>
  The nearest integer to \<open>a / b\<close>, ties to the even one: the rounding of Python's float
  formatting, which is exact on the binary value.
\<close>

definition round_half_even :: "nat \<Rightarrow> nat \<Rightarrow> nat" where
  "round_half_even a b =
     (let q = a div b; r = a mod b in
      if 2 * r < b then q
      else if b < 2 * r then q + 1
      else if even q then q else q + 1)"

text \<open>
  The presentation type \<open>f\<close> with precision \<open>p\<close> (and the \<open>,\<close> option when \<open>comma\<close>) of
  the double \<open>\<plusminus> m * 2 ^ ex\<close>: the value times \<open>10 ^ p\<close> rounded to an integer, then the
  digits before and after the point. The sign of a negative value stays when the digits
  round to zero.
\<close>

definition format_fixed :: "bool \<Rightarrow> nat \<Rightarrow> bool \<Rightarrow> nat \<Rightarrow> int \<Rightarrow> string" where
  "format_fixed comma p neg m ex =
     (let scaled = (if 0 \<le> ex then m * 10 ^ p * 2 ^ nat ex
                    else round_half_even (m * 10 ^ p) (2 ^ nat (- ex)));
          whole = str_nat (scaled div 10 ^ p);
          frac = str_nat (scaled mod 10 ^ p)
      in (if neg then ''-'' else []) @ (if comma then group3 whole else whole) @
         (if p = 0 then [] else ''.'' @ replicate (p - length frac) CHR ''0'' @ frac))"

text \<open>
  \<open>float(n)\<close> for an integer: at most 53 significant bits, rounded half to even, and
  \<open>OverflowError\<close> from \<open>2 ^ 1024\<close> on. The result is (negative, mantissa, exponent).
\<close>

fun bit_len :: "nat \<Rightarrow> nat" where
  "bit_len n = (if n = 0 then 0 else Suc (bit_len (n div 2)))"

declare bit_len.simps [simp del]

definition float_of_int :: "int \<Rightarrow> fault + bool \<times> nat \<times> int" where
  "float_of_int n =
     (let a = nat \<bar>n\<bar>; sh = bit_len a - 53; m = round_half_even a (2 ^ sh) in
      if 2 ^ 1024 \<le> m * 2 ^ sh then Inl (OverflowError ''int too large to convert to float'')
      else Inr (n < 0, m, int sh))"

text \<open>
  \<open>format(x, spec)\<close> for a cell and a spec \<open>.pf\<close> or \<open>,.pf\<close>. An integer is converted to
  a double first; not-a-number and the infinities have their names; a text and \<open>None\<close>
  raise (messages as CPython 3.11 words them).
\<close>

fun format_f :: "bool \<Rightarrow> nat \<Rightarrow> cell \<Rightarrow> fault + string" where
  "format_f comma p (IntV n) =
     (case float_of_int n of
        Inl f \<Rightarrow> Inl f
      | Inr (neg, m, ex) \<Rightarrow> Inr (format_fixed comma p neg m ex))"
| "format_f comma p (FloatV neg m ex) = Inr (format_fixed comma p neg m ex)"
| "format_f comma p NanV = Inr ''nan''"
| "format_f comma p (InfV neg) = Inr ((if neg then ''-'' else []) @ ''inf'')"
| "format_f comma p (TextV s) =
     Inl (ValueError (if comma then ''Cannot specify '' @ [CHR 0x27] @ '','' @ [CHR 0x27]
                                     @ '' with '' @ [CHR 0x27] @ ''s'' @ [CHR 0x27] @ ''.''
                      else ''Unknown format code '' @ [CHR 0x27] @ ''f'' @ [CHR 0x27]
                             @ '' for object of type '' @ [CHR 0x27] @ ''str'' @ [CHR 0x27]))"
| "format_f comma p NoneV =
     Inl (TypeError ''unsupported format string passed to NoneType.__format__'')"

text \<open>
  \<open>int(x)\<close> for a cell: a double is truncated towards zero; what \<open>int\<close> makes of a text
  is left to the parameter \<open>int_of_text\<close>.
\<close>

fun py_int :: "(string \<Rightarrow> fault + int) \<Rightarrow> cell \<Rightarrow> fault + int" where
  "py_int int_of_text (IntV n) = Inr n"
| "py_int int_of_text (FloatV neg m ex) =
     (let a = (if 0 \<le> ex then m * 2 ^ nat ex else m div 2 ^ nat (- ex)) in
      Inr (if neg then - int a else int a))"
| "py_int int_of_text NanV = Inl (ValueError ''cannot convert float NaN to integer'')"
| "py_int int_of_text (InfV neg) = Inl (OverflowError ''cannot convert float infinity to integer'')"
| "py_int int_of_text (TextV s) = int_of_text s"
| "py_int int_of_text NoneV =
     Inl (TypeError (''int() argument must be a string, a bytes-like object or a real number, not ''
                     @ [CHR 0x27] @ ''NoneType'' @ [CHR 0x27]))"

section \<open>dashboard.py\<close>

text \<open>
  A run of the script ends normally, with an exception, or with the signal of
  \<open>st.stop()\<close>. Streamlit's \<open>StopException\<close> derives from \<open>BaseException\<close>, so a clause
  \<open>except Exception\<close> does not catch it.
\<close>

datatype signal = Raised fault | StopScript

type_synonym ('a, 's) prog = "'s \<Rightarrow> (signal + 'a) \<times> 's"

definition pure :: "'a \<Rightarrow> ('a, 's) prog" where
  "pure x s = (Inr x, s)"

definition and_then :: "('a, 's) prog \<Rightarrow> ('a \<Rightarrow> ('b, 's) prog) \<Rightarrow> ('b, 's) prog" where
  "and_then m k s = (case m s of (Inl sig, s') \<Rightarrow> (Inl sig, s') | (Inr x, s') \<Rightarrow> k x s')"

text \<open>Statements one after the other: the first that raises ends the sequence.\<close>

fun run_all :: "(unit, 's) prog list \<Rightarrow> (unit, 's) prog" where
  "run_all [] s = (Inr (), s)"
| "run_all (m # ms) s =
     (case m s of (Inl sig, s') \<Rightarrow> (Inl sig, s') | (Inr u, s') \<Rightarrow> run_all ms s')"

definition lift :: "fault + 'a \<Rightarrow> ('a, 's) prog" where
  "lift r s = (case r of Inl f \<Rightarrow> (Inl (Raised f), s) | Inr x \<Rightarrow> (Inr x, s))"

definition only_if :: "bool \<Rightarrow> (unit, 's) prog \<Rightarrow> (unit, 's) prog" where
  "only_if b m = (if b then m else pure ())"

text \<open>A Streamlit element call, and \<open>st.stop()\<close>.\<close>

definition st :: "widget \<Rightarrow> (unit, 'a world_scheme) prog" where
  "st wd s = (Inr (), emit (Ui wd) s)"

definition st_stop :: "(unit, 's) prog" where
  "st_stop s = (Inl StopScript, s)"

subsection \<open>load\_view\<close>

text \<open>
  The \<open>try\<close> block of \<open>load_view\<close>: connect, query, close, return the frame. An
  exception of \<open>connect\<close> or of the query leaves the block at once, so the \<open>close\<close>
  is reached on the success path only.
\<close>

definition load_view_try :: "env \<Rightarrow> string \<Rightarrow> (table, 'a world_scheme) prog" where
  "load_view_try e view_name s =
     (case connect e DB_FILE s of
        (Inl f, s1) \<Rightarrow> (Inl (Raised f), s1)
      | (Inr conn, s1) \<Rightarrow>
          (case read_sql_query e (''SELECT * FROM '' @ view_name) conn s1 of
             (Inl f, s2) \<Rightarrow> (Inl (Raised f), s2)
           | (Inr df, s2) \<Rightarrow> (Inr df, close conn s2)))"

text \<open>
  The function as written, without its decorator: \<open>except Exception as e\<close> shows the
  error and returns \<open>pd.DataFrame()\<close>.
\<close>

definition load_view_fn :: "env \<Rightarrow> string \<Rightarrow> (table, 'a world_scheme) prog" where
  "load_view_fn e view_name s =
     (case load_view_try e view_name s of
        (Inl (Raised f), s') \<Rightarrow>
          and_then (st (ErrorBox (''Error loading '' @ view_name @ '': '' @ str f)))
            (\<lambda>u. pure empty_DataFrame) s'
      | r \<Rightarrow> r)"

text \<open>
  The state of a dashboard process: the world and the store of \<open>@st.cache_data\<close>, which
  keeps for each argument the value returned and the elements the call showed.
\<close>

record session = world +
  cache :: "string \<Rightarrow> (table \<times> widget list) option"

fun widgets_of :: "event list \<Rightarrow> widget list" where
  "widgets_of [] = []"
| "widgets_of (Ui wd # evs) = wd # widgets_of evs"
| "widgets_of (ev # evs) = widgets_of evs"

text \<open>
  \<open>@st.cache_data\<close>: a call with an argument seen before returns the stored value and
  shows the stored elements again, without running the function; otherwise the function
  runs and, when it returns, its value and the elements it showed are stored.
\<close>

definition cache_data :: "(string \<Rightarrow> (table, session) prog) \<Rightarrow> string \<Rightarrow> (table, session) prog" where
  "cache_data fn key s =
     (case cache s key of
        Some (df, shown) \<Rightarrow> (Inr df, s\<lparr>trace := trace s @ map Ui shown\<rparr>)
      | None \<Rightarrow>
          (case fn key s of
             (Inl sig, s') \<Rightarrow> (Inl sig, s')
           | (Inr df, s') \<Rightarrow>
               (Inr df,
                s'\<lparr>cache := (cache s')
                  (key := Some (df, widgets_of (drop (length (trace s)) (trace s'))))\<rparr>)))"

definition load_view :: "env \<Rightarrow> string \<Rightarrow> (table, session) prog" where
  "load_view e = cache_data (load_view_fn e)"

subsection \<open>Reading a frame\<close>

fun index_of :: "'a \<Rightarrow> 'a list \<Rightarrow> nat option" where
  "index_of x [] = None"
| "index_of x (y # ys) = (if x = y then Some 0 else map_option Suc (index_of x ys))"

definition key_error :: "string \<Rightarrow> fault" where
  "key_error name = KeyError ([CHR 0x27] @ name @ [CHR 0x27])"

text \<open>\<open>df[name].iloc[0]\<close>: the cell of the first row in the column of that name.\<close>

definition column_first :: "table \<Rightarrow> string \<Rightarrow> fault + cell" where
  "column_first df name =
     (case index_of name (columns df) of
        None \<Rightarrow> Inl (key_error name)
      | Some i \<Rightarrow>
          (case rows df of
             [] \<Rightarrow> Inl (IndexError ''single positional indexer is out-of-bounds'')
           | r # rs \<Rightarrow> Inr (if i < length r then r ! i else NoneV)))"

text \<open>\<open>df[names]\<close>: the frame of those columns, in that order.\<close>

definition select_columns :: "table \<Rightarrow> string list \<Rightarrow> fault + table" where
  "select_columns df names =
     (case filter (\<lambda>n. n \<notin> set (columns df)) names of
        [] \<Rightarrow>
          Inr (Table names
            (map (\<lambda>r. map (\<lambda>n. case index_of n (columns df) of
                                   Some i \<Rightarrow> (if i < length r then r ! i else NoneV)
                                 | None \<Rightarrow> NoneV) names) (rows df)))
      | n # ns \<Rightarrow> Inl (key_error n))"

subsection \<open>The page\<close>

text \<open>
  What the libraries outside the repository answer, as parameters: \<open>int\<close> of a text, and
  whether building the named chart from a frame raises.
\<close>

record pylib =
  int_of_text :: "string \<Rightarrow> fault + int"
  chart_fault :: "string \<Rightarrow> table \<Rightarrow> fault option"

definition NO_DATA :: string where
  "NO_DATA = [CHR 0xE2, CHR 0x9A, CHR 0xA0, CHR 0xEF, CHR 0xB8, CHR 0x8F] @ '' No data found. Please ensure views are created in the database.''"

text \<open>The four metrics of the KPI strip, each read from the frame and formatted.\<close>

definition metric_total_customers :: "pylib \<Rightarrow> table \<Rightarrow> (unit, session) prog" where
  "metric_total_customers lib kpis_df =
     and_then (lift (column_first kpis_df ''total_customers'')) (\<lambda>c.
     and_then (lift (py_int (int_of_text lib) c)) (\<lambda>total_customers.
     st (Metric ''Total Customers'' (format_int_comma total_customers))))"

definition metric_churn_rate :: "table \<Rightarrow> (unit, session) prog" where
  "metric_churn_rate kpis_df =
     and_then (lift (column_first kpis_df ''overall_churn_rate_pct'')) (\<lambda>churn_rate.
     and_then (lift (format_f False 1 churn_rate)) (\<lambda>v.
     st (Metric ''Overall Churn Rate'' (v @ ''%''))))"

definition metric_avg_balance :: "table \<Rightarrow> (unit, session) prog" where
  "metric_avg_balance kpis_df =
     and_then (lift (column_first kpis_df ''avg_balance'')) (\<lambda>avg_balance.
     and_then (lift (format_f True 2 avg_balance)) (\<lambda>v.
     st (Metric ''Average Balance'' (''$'' @ v))))"

definition metric_total_balance :: "table \<Rightarrow> (unit, session) prog" where
  "metric_total_balance kpis_df =
     and_then (lift (column_first kpis_df ''total_balance'')) (\<lambda>total_balance.
     and_then (lift (format_f True 0 total_balance)) (\<lambda>v.
     st (Metric ''Total Balance'' (''$'' @ v))))"

definition kpi_strip :: "pylib \<Rightarrow> table \<Rightarrow> (unit, session) prog" where
  "kpi_strip lib kpis_df =
     run_all
       [st (Header ([CHR 0xF0, CHR 0x9F, CHR 0x93, CHR 0x88] @ '' Key Performance Indicators'')),
        st (Columns 4),
        metric_total_customers lib kpis_df,
        metric_churn_rate kpis_df,
        metric_avg_balance kpis_df,
        metric_total_balance kpis_df]"

text \<open>A chart built by plotly and shown; building it may raise.\<close>

definition plotly_chart :: "pylib \<Rightarrow> string \<Rightarrow> table \<Rightarrow> (unit, session) prog" where
  "plotly_chart lib chart df s =
     (case chart_fault lib chart df of
        Some f \<Rightarrow> (Inl (Raised f), s)
      | None \<Rightarrow> st (PlotlyChart chart df) s)"

text \<open>
  The pattern of most panels: a subheader, the view loaded, and the chart when the frame
  is not empty.
\<close>

definition chart_panel :: "env \<Rightarrow> pylib \<Rightarrow> string \<Rightarrow> string \<Rightarrow> string \<Rightarrow> (unit, session) prog" where
  "chart_panel e lib heading view_name chart =
     and_then (st (Subheader heading)) (\<lambda>u.
     and_then (load_view e view_name) (\<lambda>df.
     only_if (\<not> is_empty df) (plotly_chart lib chart df)))"

definition tab1 :: "env \<Rightarrow> pylib \<Rightarrow> (unit, session) prog" where
  "tab1 e lib =
     run_all
       [st (Header ''Customer Churn Analysis''),
        st (Columns 2),
        chart_panel e lib ''Churn Rate by Branch'' ''churn_by_branch'' ''Churn Rate by Branch'',
        chart_panel e lib ''Churn Rate by Account Type'' ''churn_by_account_type''
          ''Churn Rate Distribution by Account Type'',
        chart_panel e lib ''Churn by Income Band'' ''income_band_churn''
          ''Churn Rate by Income Band'']"

definition tab2 :: "env \<Rightarrow> pylib \<Rightarrow> (unit, session) prog" where
  "tab2 e lib =
     run_all
       [st (Header ''Balance & Financial Analysis''),
        st (Columns 2),
        chart_panel e lib ''Average Balance by Branch'' ''avg_balance_by_branch''
          ''Average Balance by Branch'',
        chart_panel e lib ''Average Balance by Account Type'' ''avg_balance_by_account_type''
          ''Average Balance by Account Type'',
        chart_panel e lib ''Balance by Customer Tenure'' ''balance_by_tenure''
          ''Average Balance by Customer Tenure'']"

definition high_value_panel :: "env \<Rightarrow> (unit, session) prog" where
  "high_value_panel e =
     and_then (st (Subheader ''High-Value Customers'')) (\<lambda>u.
     and_then (load_view e ''high_value_customers'') (\<lambda>high_value.
     only_if (\<not> is_empty high_value)
       (and_then
          (lift (select_columns high_value
             [''customer_id'', ''branch'', ''account_type'', ''balance'', ''income'',
              ''tenure_years'']))
          (\<lambda>shown. st (Dataframe shown)))))"

definition tab3 :: "env \<Rightarrow> pylib \<Rightarrow> (unit, session) prog" where
  "tab3 e lib =
     run_all
       [st (Header ''Customer Segmentation''),
        st (Columns 2),
        chart_panel e lib ''Account Type Distribution'' ''account_type_distribution''
          ''Customer Distribution by Account Type'',
        chart_panel e lib ''Branch Distribution'' ''branch_distribution''
          ''Customer Distribution by Branch'',
        high_value_panel e]"

text \<open>
  The combined chart of the fourth tab reads three columns of the frame before it is
  built; a column that is not there raises \<open>KeyError\<close>.
\<close>

definition need_column :: "table \<Rightarrow> string \<Rightarrow> (unit, session) prog" where
  "need_column df name = (if name \<in> set (columns df) then pure () else lift (Inl (key_error name)))"

definition tab4 :: "env \<Rightarrow> pylib \<Rightarrow> (unit, session) prog" where
  "tab4 e lib =
     and_then (st (Header ''Branch Performance Overview'')) (\<lambda>u.
     and_then (load_view e ''branch_performance'') (\<lambda>branch_perf.
     only_if (\<not> is_empty branch_perf)
       (run_all
          [need_column branch_perf ''branch'',
           need_column branch_perf ''churn_rate_pct'',
           need_column branch_perf ''avg_balance'',
           plotly_chart lib ''Branch Performance: Churn Rate vs Average Balance'' branch_perf,
           st (Subheader ''Branch Performance Metrics''),
           st (Dataframe branch_perf)])))"

definition view_options :: "(string \<times> string) list" where
  "view_options =
     [(''Churn by Branch'', ''churn_by_branch''),
      (''Churn by Account Type'', ''churn_by_account_type''),
      (''Income Band Churn'', ''income_band_churn''),
      (''Average Balance by Branch'', ''avg_balance_by_branch''),
      (''Average Balance by Account Type'', ''avg_balance_by_account_type''),
      (''Balance by Tenure'', ''balance_by_tenure''),
      (''Account Type Distribution'', ''account_type_distribution''),
      (''Branch Distribution'', ''branch_distribution''),
      (''High Value Customers'', ''high_value_customers''),
      (''Overall KPIs'', ''overall_kpis''),
      (''Branch Performance'', ''branch_performance'')]"

text \<open>
  The fifth tab. \<open>selected_view\<close> is what \<open>st.selectbox\<close> returns in this run: the label
  the user picked.
\<close>

definition tab5 :: "env \<Rightarrow> string \<Rightarrow> (unit, session) prog" where
  "tab5 e selected_view =
     run_all
       [st (Header ''Data Tables''),
        st (Selectbox ''Select a view to display:'' (map fst view_options)),
        only_if (selected_view \<noteq> [])
          (and_then
             (lift (case map_of view_options selected_view of
                      None \<Rightarrow> Inl (key_error selected_view)
                    | Some view_name \<Rightarrow> Inr view_name))
             (\<lambda>view_name.
                and_then (load_view e view_name) (\<lambda>df.
                only_if (\<not> is_empty df)
                  (run_all
                     [st (Dataframe df),
                      st (DownloadButton ([CHR 0xF0, CHR 0x9F, CHR 0x93, CHR 0xA5] @ '' Download as CSV'') df (view_name @ ''.csv''))]))))]"

text \<open>The body of the top-level \<open>try\<close>.\<close>

definition report_body :: "env \<Rightarrow> pylib \<Rightarrow> string \<Rightarrow> (unit, session) prog" where
  "report_body e lib selected_view =
     and_then (load_view e ''overall_kpis'') (\<lambda>kpis_df.
     run_all
       [only_if (is_empty kpis_df) (run_all [st (ErrorBox NO_DATA), st_stop]),
        kpi_strip lib kpis_df,
        st (Markdown ''---''),
        st (Tabs
          [[CHR 0xF0, CHR 0x9F, CHR 0x94, CHR 0xB4] @ '' Churn Analysis'',
      [CHR 0xF0, CHR 0x9F, CHR 0x92, CHR 0xB0] @ '' Balance Analysis'',
      [CHR 0xF0, CHR 0x9F, CHR 0x91, CHR 0xA5] @ '' Customer Segmentation'',
      [CHR 0xF0, CHR 0x9F, CHR 0x8F, CHR 0xA2] @ '' Branch Performance'',
      [CHR 0xF0, CHR 0x9F, CHR 0x93, CHR 0x8B] @ '' Data Tables'']),
        tab1 e lib,
        tab2 e lib,
        tab3 e lib,
        tab4 e lib,
        tab5 e selected_view,
        st (Markdown ''---''),
        st (Markdown (''<div style='' @ [CHR 0x27] @ ''text-align: center; color: gray;'' @ [CHR 0x27] @ ''>Bank Customer Analytics Dashboard | Built with Streamlit</div>''))])"

text \<open>The three \<open>except\<close> clauses of the top level, in the source's order.\<close>

definition report_except :: "fault \<Rightarrow> (unit, session) prog" where
  "report_except f =
     (case f of
        OperationalError m \<Rightarrow>
          run_all
            [st (ErrorBox ([CHR 0xE2, CHR 0x9A, CHR 0xA0, CHR 0xEF, CHR 0xB8, CHR 0x8F] @ '' Database error: '' @ m)),
             st (InfoBox ([CHR 0xF0, CHR 0x9F, CHR 0x92, CHR 0xA1] @ '' Make sure you'' @ [CHR 0x27] @ ''ve created the views by running views.sql first!''))]
      | FileNotFoundError m \<Rightarrow>
          run_all
            [st (ErrorBox ([CHR 0xE2, CHR 0x9A, CHR 0xA0, CHR 0xEF, CHR 0xB8, CHR 0x8F] @ '' Database file '' @ [CHR 0x27] @ ''bank.db'' @ [CHR 0x27] @ '' not found!'')),
             st (InfoBox ([CHR 0xF0, CHR 0x9F, CHR 0x92, CHR 0xA1] @ '' Please ensure bank.db exists in the current directory.''))]
      | _ \<Rightarrow> st (ErrorBox ([CHR 0xE2, CHR 0x9A, CHR 0xA0, CHR 0xEF, CHR 0xB8, CHR 0x8F] @ '' An error occurred: '' @ str f)))"

definition report :: "env \<Rightarrow> pylib \<Rightarrow> string \<Rightarrow> (unit, session) prog" where
  "report e lib selected_view s =
     (case report_body e lib selected_view s of
        (Inl (Raised f), s') \<Rightarrow> report_except f s'
      | r \<Rightarrow> r)"

text \<open>One run of the script, from its first line.\<close>

definition dashboard :: "env \<Rightarrow> pylib \<Rightarrow> string \<Rightarrow> (unit, session) prog" where
  "dashboard e lib selected_view =
     run_all
       [st (PageConfig ''Bank Customer Analytics''),
        st (Title ([CHR 0xF0, CHR 0x9F, CHR 0x8F, CHR 0xA6] @ '' Bank Customer Analytics Dashboard'')),
        st (Markdown ''---''),
        st (SidebarHeader ([CHR 0xF0, CHR 0x9F, CHR 0x93, CHR 0x8A] @ '' Filters & Options'')),
        report e lib selected_view]"

text \<open>
  A session: the script runs once for each interaction, with the selection of that
  moment, and the cache lives on from run to run.
\<close>

fun run_session :: "env \<Rightarrow> pylib \<Rightarrow> string list \<Rightarrow> session \<Rightarrow> session" where
  "run_session e lib [] s = s"
| "run_session e lib (selected_view # later) s =
     run_session e lib later (snd (dashboard e lib selected_view s))"

section \<open>Observing a run\<close>

text \<open>A fresh process: nothing done yet.\<close>

definition world0 :: world where
  "world0 = \<lparr>trace = [], next_handle = 0\<rparr>"

text \<open>What a run added to the trace.\<close>

definition events_since :: "world \<Rightarrow> world \<Rightarrow> event list" where
  "events_since w w' = drop (length (trace w)) (trace w')"

text \<open>The events that change the file system: a directory made, a file written.\<close>

fun touches_files :: "event \<Rightarrow> bool" where
  "touches_files (Mkdir p) = True"
| "touches_files (ToCsv p df) = True"
| "touches_files ev = False"

fun uses_connection :: "event \<Rightarrow> bool" where
  "uses_connection (Connect db h) = True"
| "uses_connection (Query h q) = True"
| "uses_connection (Close h) = True"
| "uses_connection ev = False"

fun is_query :: "event \<Rightarrow> bool" where
  "is_query (Query h q) = True"
| "is_query ev = False"

fun is_to_csv :: "event \<Rightarrow> bool" where
  "is_to_csv (ToCsv p df) = True"
| "is_to_csv ev = False"

text \<open>The query text and the file of a view, as \<open>export_view_to_csv\<close> builds them.\<close>

definition select_all :: "string \<Rightarrow> string" where
  "select_all view_name = ''SELECT * FROM '' @ view_name"

definition csv_path_of :: "string \<Rightarrow> string" where
  "csv_path_of view_name = os_path_join RESULTS_DIR (view_name @ ''.csv'')"

text \<open>One export seen from a fresh world: what it adds to the trace and what it returns.\<close>

definition export_events :: "env \<Rightarrow> nat \<Rightarrow> string \<Rightarrow> event list" where
  "export_events e conn view_name = trace (snd (export_view_to_csv e conn view_name world0))"

definition export_succeeds :: "env \<Rightarrow> string \<Rightarrow> bool" where
  "export_succeeds e view_name = fst (export_view_to_csv e 0 view_name world0)"

text \<open>What follows the colon in the error line of a failed export.\<close>

definition error_detail :: "fault \<Rightarrow> string" where
  "error_detail f = (case f of OperationalError m \<Rightarrow> ''View does not exist'' | _ \<Rightarrow> str f)"

text \<open>The lines \<open>main\<close> prints first, and the events around its loop.\<close>

definition banner :: "string list" where
  "banner =
     [rule70 CHR ''='', ''Bank Customer Analytics - View Exporter'', rule70 CHR ''='', []]"

definition preamble :: "nat \<Rightarrow> event list" where
  "preamble h =
     map Print banner @
     [Mkdir RESULTS_DIR,
      Print (''[OK] Results folder '' @ [CHR 0x27] @ RESULTS_DIR @ [CHR 0x27] @ '' ready''),
      Print [],
      Connect DB_FILE h,
      Print (''[OK] Connected to '' @ DB_FILE),
      Print [],
      Print ''Exporting views to CSV...'',
      Print (rule70 CHR ''-'')]"

definition epilogue :: "env \<Rightarrow> nat \<Rightarrow> nat \<Rightarrow> event list" where
  "epilogue e h k =
     [Close h,
      Print (rule70 CHR ''-''),
      Print (summary_line k),
      Print (''CSV files saved to: '' @ abspath e RESULTS_DIR @ ''/''),
      Print (rule70 CHR ''='')]"

section \<open>Concrete worlds\<close>

text \<open>
  The message of the \<open>DatabaseError\<close> that pandas raises for a view the database does
  not have.
\<close>

definition no_such_table :: "string \<Rightarrow> string" where
  "no_such_table view_name =
     ''Execution failed on sql '' @ [CHR 0x27] @ ''SELECT * FROM '' @ view_name @ [CHR 0x27]
       @ '': no such table: '' @ view_name"

text \<open>
  A directory without \<open>bank.db\<close>: the connection would create an empty database, in
  which every query fails with the \<open>DatabaseError\<close> of pandas (the table named after
  \<open>SELECT * FROM\<close> does not exist).
\<close>

definition env_no_db :: env where
  "env_no_db =
     \<lparr>path_exists = (\<lambda>p. False),
      mkdir_fault = (\<lambda>p. None),
      connect_fault = (\<lambda>p. None),
      read_sql = (\<lambda>q. Inl (DatabaseError
        (''Execution failed on sql '' @ [CHR 0x27] @ q @ [CHR 0x27] @ '': no such table: ''
           @ drop (length ''SELECT * FROM '') q))),
      to_csv_fault = (\<lambda>p. None),
      abspath = (\<lambda>p. ''/home/bank/'' @ p)\<rparr>"

definition sample_table :: table where
  "sample_table =
     Table [''branch'', ''churn_rate_pct''] [[TextV ''North'', FloatV False 29 (- 2)]]"

text \<open>
  A database in which every view of the catalog but \<open>income_band_churn\<close> exists: the
  query of the missing view raises the \<open>DatabaseError\<close> of pandas, every other query
  returns a table of one row.
\<close>

definition env_one_missing :: env where
  "env_one_missing =
     \<lparr>path_exists = (\<lambda>p. True),
      mkdir_fault = (\<lambda>p. None),
      connect_fault = (\<lambda>p. None),
      read_sql = (\<lambda>q. if q = ''SELECT * FROM income_band_churn''
                       then Inl (DatabaseError (no_such_table ''income_band_churn''))
                       else Inr sample_table),
      to_csv_fault = (\<lambda>p. None),
      abspath = (\<lambda>p. ''/home/bank/'' @ p)\<rparr>"

text \<open>A fresh dashboard process: nothing done, nothing cached.\<close>

definition session0 :: session where
  "session0 = \<lparr>trace = [], next_handle = 0, cache = (\<lambda>key. None)\<rparr>"

text \<open>Libraries that never raise on a chart, and read no text as a number.\<close>

definition pylib0 :: pylib where
  "pylib0 =
     \<lparr>int_of_text = (\<lambda>t. Inl (ValueError ''invalid literal for int() with base 10'')),
      chart_fault = (\<lambda>chart df. None)\<rparr>"

text \<open>
  The KPI row of the example: 12345 customers, churn rate 7.25 (\<open>29 / 4\<close>), average
  balance 1234.5 (\<open>2469 / 2\<close>), total balance 9876543.
\<close>

definition kpi_example :: table where
  "kpi_example =
     Table [''total_customers'', ''overall_churn_rate_pct'', ''avg_balance'', ''total_balance'']
       [[IntV 12345, FloatV False 29 (- 2), FloatV False 2469 (- 1), IntV 9876543]]"

section \<open>Observing the dashboard\<close>

text \<open>What a run added to the trace of a session.\<close>

definition added :: "session \<Rightarrow> session \<Rightarrow> event list" where
  "added s s' = drop (length (trace s)) (trace s')"



text \<open>The queries of one view in a trace.\<close>

fun is_query_of :: "string \<Rightarrow> event \<Rightarrow> bool" where
  "is_query_of view_name (Query h q) = (q = ''SELECT * FROM '' @ view_name)"
| "is_query_of view_name ev = False"

definition queries_of :: "string \<Rightarrow> event list \<Rightarrow> nat" where
  "queries_of view_name evs = length (filter (is_query_of view_name) evs)"

text \<open>
  The invariant of the cache: a view that was queried is in the cache, and no view was
  queried twice. \<open>keeps\<close> says that a piece of the script preserves it.
\<close>

definition cache_inv :: "session \<Rightarrow> bool" where
  "cache_inv s =
     (\<forall>view_name. (cache s view_name = None \<longrightarrow> queries_of view_name (trace s) = 0) \<and>
                  queries_of view_name (trace s) \<le> 1)"

definition keeps :: "('a, session) prog \<Rightarrow> bool" where
  "keeps m = (\<forall>s. cache_inv s \<longrightarrow> cache_inv (snd (m s)))"

section \<open>Basic facts about the effects\<close>

lemma trace_emit: "trace (emit ev w) = trace w @ [ev]"
  by (simp add: emit_def)

lemma trace_print: "trace (print s w) = trace w @ [Print s]"
  by (simp add: print_def emit_def)

lemma trace_close: "trace (close c w) = trace w @ [Close c]"
  by (simp add: close_def emit_def)

lemma next_handle_emit: "next_handle (emit ev w) = next_handle w"
  by (simp add: emit_def)

lemma next_handle_print: "next_handle (print s w) = next_handle w"
  by (simp add: print_def emit_def)

section \<open>The exporter without a database file\<close>

text \<open>
  C3. When \<open>bank.db\<close> does not exist, \<open>main\<close> returns normally having done nothing but
  print: the banner, then one fatal diagnostic (the \<open>[ERROR]\<close> line with its hint). No
  connection, no query, no export and no file written appear in the trace.
\<close>

theorem main_without_database_aborts:
  assumes "\<not> path_exists e DB_FILE"
  shows "fst (main e w) = None \<and>
         trace (snd (main e w)) =
           trace w @ map Print (banner @
             [''[ERROR] Database file '' @ [CHR 0x27] @ ''bank.db'' @ [CHR 0x27] @ '' not found!'',
              ''  Make sure bank.db exists in the current directory.''])"
  using assms by (simp add: main_def Let_def trace_print banner_def DB_FILE_def)

theorem main_without_database_aborts_witness:
  "\<not> path_exists env_no_db DB_FILE \<and>
   fst (main env_no_db world0) = None \<and>
   trace (snd (main env_no_db world0)) =
     map Print (banner @
       [''[ERROR] Database file '' @ [CHR 0x27] @ ''bank.db'' @ [CHR 0x27] @ '' not found!'',
        ''  Make sure bank.db exists in the current directory.''])"
proof -
  have h: "\<not> path_exists env_no_db DB_FILE"
    by (simp add: env_no_db_def)
  show ?thesis
    using h main_without_database_aborts [OF h, of world0] by (simp add: world0_def)
qed

text \<open>
  C10. When \<open>bank.db\<close> does not exist, \<open>main\<close> changes nothing in the file system: the
  events that make a directory or write a file are those that were there before, so the
  output directory is not created. The existence check returns before
  \<open>create_results_folder\<close> is reached.
\<close>

theorem main_without_database_leaves_files:
  assumes "\<not> path_exists e DB_FILE"
  shows "filter touches_files (trace (snd (main e w))) = filter touches_files (trace w) \<and>
         Mkdir RESULTS_DIR \<notin> set (trace (snd (main e w))) - set (trace w)"
  using assms by (auto simp add: main_def Let_def trace_print)

theorem main_without_database_leaves_files_witness:
  "\<not> path_exists env_no_db DB_FILE \<and>
   filter touches_files (trace (snd (main env_no_db world0))) = [] \<and>
   Mkdir RESULTS_DIR \<notin> set (trace (snd (main env_no_db world0)))"
proof -
  have h: "\<not> path_exists env_no_db DB_FILE"
    by (simp add: env_no_db_def)
  show ?thesis
    using h main_without_database_leaves_files [OF h, of world0] by (simp add: world0_def)
qed

section \<open>The export loop\<close>

text \<open>An export touches the world only by appending to the trace.\<close>

lemma export_view_frame:
  "export_view_to_csv e c v w =
     (export_succeeds e v, w\<lparr>trace := trace w @ export_events e c v\<rparr>)"
  by (simp add: export_succeeds_def export_events_def export_view_to_csv_def export_except_def
      read_sql_query_def Let_def emit_def print_def world0_def
      split: sum.splits option.splits fault.splits)

lemma export_loop_result:
  "export_loop e c vs n w =
     (n + length (filter (export_succeeds e) vs),
      w\<lparr>trace := trace w @ concat (map (export_events e c) vs)\<rparr>)"
proof (induction vs arbitrary: n w)
  case Nil
  show ?case by simp
next
  case (Cons v vs)
  show ?case
    by (simp add: export_view_frame Cons.IH)
qed

lemma export_events_fault:
  assumes "read_sql e (select_all v) = Inl f"
  shows "export_events e c v =
           Query c (select_all v) # map Print
             (case f of
                OperationalError m \<Rightarrow>
                  [''  [ERROR] Error exporting '' @ v @ '': View does not exist'',
                   ''    Hint: Make sure you've run views.sql first'']
              | _ \<Rightarrow> [''  [ERROR] Error exporting '' @ v @ '': '' @ str f])"
    and "\<not> export_succeeds e v"
  using assms
  by (simp_all add: export_succeeds_def export_events_def export_view_to_csv_def export_except_def
      read_sql_query_def Let_def emit_def print_def world0_def select_all_def
      split: fault.splits)

lemma export_events_written:
  assumes "read_sql e (select_all v) = Inr df" and "to_csv_fault e (csv_path_of v) = None"
  shows "export_events e c v =
           [Query c (select_all v), ToCsv (csv_path_of v) df,
            Print (ok_line v (length (rows df)) (csv_path_of v))]"
    and "export_succeeds e v"
  using assms
  by (simp_all add: export_succeeds_def export_events_def export_view_to_csv_def
      read_sql_query_def Let_def emit_def print_def world0_def select_all_def csv_path_of_def)

lemma export_error_line:
  assumes "read_sql e (select_all v) = Inl f"
  shows "Print (''  [ERROR] Error exporting '' @ v @ '': '' @ error_detail f)
           \<in> set (export_events e c v)"
  by (simp add: export_events_fault(1) [OF assms] error_detail_def split: fault.splits)

lemma export_events_connection:
  "filter uses_connection (export_events e c v) = [Query c (select_all v)]"
  by (simp add: export_events_def export_view_to_csv_def export_except_def
      read_sql_query_def Let_def emit_def print_def world0_def select_all_def
      split: sum.splits option.splits fault.splits)

lemma export_events_query:
  "filter is_query (export_events e c v) = [Query c (select_all v)]"
  by (simp add: export_events_def export_view_to_csv_def export_except_def
      read_sql_query_def Let_def emit_def print_def world0_def select_all_def
      split: sum.splits option.splits fault.splits)

lemma export_events_to_csv:
  "length (filter is_to_csv (export_events e c v)) = (if export_succeeds e v then 1 else 0)"
  by (simp add: export_events_def export_succeeds_def export_view_to_csv_def export_except_def
      read_sql_query_def Let_def emit_def print_def world0_def
      split: sum.splits option.splits fault.splits)

lemma filter_concat_map_single:
  assumes "\<And>x. filter P (f x) = [g x]"
  shows "filter P (concat (map f xs)) = map g xs"
  by (induction xs) (simp_all add: assms)

lemma length_filter_concat_map:
  assumes "\<And>x. length (filter P (f x)) = (if Q x then 1 else 0)"
  shows "length (filter P (concat (map f xs))) = length (filter Q xs)"
  by (induction xs) (simp_all add: assms)

subsection \<open>The catalog\<close>

lemma length_VIEWS: "length VIEWS = 11"
  by (simp add: VIEWS_def)

lemma distinct_VIEWS: "distinct VIEWS"
  by (simp add: VIEWS_def)

lemma summary_10: "summary_line 10 = [CHR 0x0A] @ ''Summary: 10/11 views exported successfully''"
  by code_simp

lemma length_filter_others:
  assumes "distinct xs" and "v \<in> set xs"
  shows "Suc (length (filter (\<lambda>u. u \<noteq> v) xs)) = length xs"
  using assms
proof (induction xs)
  case Nil
  then show ?case by simp
next
  case (Cons x xs)
  show ?case
  proof (cases "x = v")
    case True
    with Cons.prems have "v \<notin> set xs" by simp
    then have "filter (\<lambda>u. u \<noteq> v) xs = xs"
      by (simp add: filter_id_conv) blast
    with True show ?thesis by simp
  next
    case False
    with Cons.prems have "distinct xs" and "v \<in> set xs" by simp_all
    with Cons.IH have "Suc (length (filter (\<lambda>u. u \<noteq> v) xs)) = length xs" by simp
    with False show ?thesis by simp
  qed
qed

lemma all_but_one:
  assumes "v \<in> set VIEWS"
  shows "length (filter (\<lambda>u. u \<noteq> v) VIEWS) = 10"
  using length_filter_others [OF distinct_VIEWS assms] by (simp add: length_VIEWS)

subsection \<open>A whole run with the database there\<close>

lemma main_trace:
  assumes "path_exists e DB_FILE" and "mkdir_fault e RESULTS_DIR = None"
    and "connect_fault e DB_FILE = None"
  shows "fst (main e w) = None"
    and "trace (snd (main e w)) =
       trace w @ preamble (next_handle w) @
       concat (map (export_events e (next_handle w)) VIEWS) @
       epilogue e (next_handle w) (length (filter (export_succeeds e) VIEWS))"
  using assms
  by (simp_all add: main_def Let_def create_results_folder_def connect_def export_loop_result
      trace_print trace_emit trace_close next_handle_print next_handle_emit
      preamble_def epilogue_def banner_def)

lemma main_events:
  assumes "path_exists e DB_FILE" and "mkdir_fault e RESULTS_DIR = None"
    and "connect_fault e DB_FILE = None"
  shows "events_since w (snd (main e w)) =
       preamble (next_handle w) @
       concat (map (export_events e (next_handle w)) VIEWS) @
       epilogue e (next_handle w) (length (filter (export_succeeds e) VIEWS))"
  by (simp add: events_since_def main_trace [OF assms])

text \<open>
  C5. When \<open>bank.db\<close> exists, the directory can be made and the connection opens, the
  events of a batch run that concern connections are, in this order: one \<open>Connect\<close>, the
  eleven queries of the catalog, all on that connection, and one \<open>Close\<close> of it. This
  holds whatever each query and each file write answers, so a failed view never skips
  the close.
\<close>

theorem main_single_connection:
  assumes "path_exists e DB_FILE" and "mkdir_fault e RESULTS_DIR = None"
    and "connect_fault e DB_FILE = None"
  shows "filter uses_connection (events_since w (snd (main e w))) =
           Connect DB_FILE (next_handle w) #
           map (\<lambda>view. Query (next_handle w) (select_all view)) VIEWS @
           [Close (next_handle w)]"
  by (simp add: main_events [OF assms] preamble_def epilogue_def banner_def
      filter_concat_map_single [OF export_events_connection])

theorem main_single_connection_witness:
  "path_exists env_one_missing DB_FILE \<and>
   mkdir_fault env_one_missing RESULTS_DIR = None \<and>
   connect_fault env_one_missing DB_FILE = None \<and>
   read_sql env_one_missing (select_all ''income_band_churn'')
     = Inl (DatabaseError (no_such_table ''income_band_churn'')) \<and>
   filter uses_connection (events_since world0 (snd (main env_one_missing world0))) =
     Connect DB_FILE 0 # map (\<lambda>view. Query 0 (select_all view)) VIEWS @ [Close 0]"
proof -
  have h1: "path_exists env_one_missing DB_FILE"
    and h2: "mkdir_fault env_one_missing RESULTS_DIR = None"
    and h3: "connect_fault env_one_missing DB_FILE = None"
    by (simp_all add: env_one_missing_def)
  have h4: "read_sql env_one_missing (select_all ''income_band_churn'')
     = Inl (DatabaseError (no_such_table ''income_band_churn''))"
    by (simp add: env_one_missing_def select_all_def)
  have n: "next_handle world0 = 0"
    by (simp add: world0_def)
  have c: "filter uses_connection (events_since world0 (snd (main env_one_missing world0))) =
     Connect DB_FILE 0 # map (\<lambda>view. Query 0 (select_all view)) VIEWS @ [Close 0]"
    using main_single_connection [OF h1 h2 h3, of world0] by (simp only: n)
  show ?thesis
    using h1 h2 h3 h4 c by simp
qed

text \<open>
  A run in which exactly one view of the catalog fails to load, whatever the exception,
  while every other view loads and its file can be written: the run returns normally,
  the summary line says \<open>10/11\<close>, an error line names the view, the queries of all eleven
  views are issued in catalog order, and the ten other files are written.
\<close>

lemma main_one_view_fails:
  assumes db: "path_exists e DB_FILE" "mkdir_fault e RESULTS_DIR = None"
      "connect_fault e DB_FILE = None"
    and missing: "missing \<in> set VIEWS" "read_sql e (select_all missing) = Inl f"
    and others: "\<forall>view \<in> set VIEWS. view \<noteq> missing \<longrightarrow>
        (\<exists>df. read_sql e (select_all view) = Inr df) \<and> to_csv_fault e (csv_path_of view) = None"
  shows "fst (main e w) = None \<and>
     Print ([CHR 0x0A] @ ''Summary: 10/11 views exported successfully'')
       \<in> set (events_since w (snd (main e w))) \<and>
     Print (''  [ERROR] Error exporting '' @ missing @ '': '' @ error_detail f)
       \<in> set (events_since w (snd (main e w))) \<and>
     filter is_query (events_since w (snd (main e w))) =
       map (\<lambda>view. Query (next_handle w) (select_all view)) VIEWS \<and>
     (\<forall>view \<in> set VIEWS. view \<noteq> missing \<longrightarrow>
        ToCsv (csv_path_of view) (projr (read_sql e (select_all view)))
          \<in> set (events_since w (snd (main e w)))) \<and>
     length (filter is_to_csv (events_since w (snd (main e w)))) = 10"
proof -
  let ?h = "next_handle w"
  let ?evs = "events_since w (snd (main e w))"
  have ok: "export_succeeds e view \<longleftrightarrow> view \<noteq> missing" if "view \<in> set VIEWS" for view
  proof (cases "view = missing")
    case True
    then show ?thesis using export_events_fault(2) [OF missing(2)] by simp
  next
    case False
    with others that obtain df where "read_sql e (select_all view) = Inr df"
      and "to_csv_fault e (csv_path_of view) = None" by blast
    then show ?thesis using False export_events_written(2) by simp
  qed
  then have "filter (export_succeeds e) VIEWS = filter (\<lambda>u. u \<noteq> missing) VIEWS"
    by (simp cong: filter_cong)
  then have count: "length (filter (export_succeeds e) VIEWS) = 10"
    by (simp add: all_but_one [OF missing(1)])
  have evs: "?evs = preamble ?h @ concat (map (export_events e ?h) VIEWS) @ epilogue e ?h 10"
    by (simp add: main_events [OF db] count)
  have c1: "fst (main e w) = None"
    by (rule main_trace(1) [OF db])
  have "Print (summary_line 10) \<in> set ?evs"
    by (simp add: evs epilogue_def)
  then have c2: "Print ([CHR 0x0A] @ ''Summary: 10/11 views exported successfully'') \<in> set ?evs"
    by (simp only: summary_10)
  have "Print (''  [ERROR] Error exporting '' @ missing @ '': '' @ error_detail f)
          \<in> set (export_events e ?h missing)"
    by (rule export_error_line [OF missing(2)])
  with missing(1) have c3:
    "Print (''  [ERROR] Error exporting '' @ missing @ '': '' @ error_detail f) \<in> set ?evs"
    unfolding evs by auto
  have c4: "filter is_query ?evs = map (\<lambda>view. Query ?h (select_all view)) VIEWS"
    by (simp add: evs preamble_def epilogue_def banner_def
        filter_concat_map_single [OF export_events_query])
  have c5: "ToCsv (csv_path_of view) (projr (read_sql e (select_all view))) \<in> set ?evs"
    if "view \<in> set VIEWS" and "view \<noteq> missing" for view
  proof -
    from others that obtain df where df: "read_sql e (select_all view) = Inr df"
      and "to_csv_fault e (csv_path_of view) = None" by blast
    then have "ToCsv (csv_path_of view) df \<in> set (export_events e ?h view)"
      by (simp add: export_events_written(1))
    with that(1) df show ?thesis unfolding evs by auto
  qed
  have c6: "length (filter is_to_csv ?evs) = 10"
    by (simp add: evs preamble_def epilogue_def banner_def
        length_filter_concat_map [OF export_events_to_csv] count)
  from c1 c2 c3 c4 c5 c6 show ?thesis by blast
qed

subsection \<open>The view that does not exist\<close>

lemma rule70_Cons: "rule70 c = c # replicate 69 c"
proof -
  have "replicate (Suc 69) c = c # replicate 69 c"
    by (rule replicate_Suc)
  then show ?thesis
    by (simp add: rule70_def)
qed

lemma one_missing_read:
  "read_sql env_one_missing (select_all v) =
     (if v = ''income_band_churn'' then Inl (DatabaseError (no_such_table ''income_band_churn''))
      else Inr sample_table)"
  by (simp add: env_one_missing_def select_all_def)

lemma one_missing_events:
  "export_events env_one_missing c v =
     (if v = ''income_band_churn''
      then [Query c (select_all v),
            Print (''  [ERROR] Error exporting income_band_churn: ''
                     @ no_such_table ''income_band_churn'')]
      else [Query c (select_all v), ToCsv (csv_path_of v) sample_table,
            Print (ok_line v (length (rows sample_table)) (csv_path_of v))])"
proof (cases "v = ''income_band_churn''")
  case True
  then have "read_sql env_one_missing (select_all v)
      = Inl (DatabaseError (no_such_table ''income_band_churn''))"
    by (simp add: one_missing_read)
  from export_events_fault(1) [OF this] True show ?thesis
    by simp
next
  case False
  then have r: "read_sql env_one_missing (select_all v) = Inr sample_table"
    by (simp add: one_missing_read)
  have t: "to_csv_fault env_one_missing (csv_path_of v) = None"
    by (simp add: env_one_missing_def)
  from export_events_written(1) [OF r t] False show ?thesis
    by simp
qed

text \<open>
  C2. The run of the batch exporter on a database in which \<open>income_band_churn\<close> alone
  does not exist. The query of that view raises the \<open>DatabaseError\<close> of pandas, which
  the clause for \<open>sqlite3.OperationalError\<close> does not catch: the run prints the generic
  error line with the message of the exception, and prints neither the line
  \<open>View does not exist\<close> nor the hint that lines 63 to 66 of \<open>export_views.py\<close> hold for
  a missing view. The rest of the claim holds there: the summary line says \<open>10/11\<close>, the
  loop goes on, and ten files are written.
\<close>

theorem main_missing_view_generic_line:
  "fst (main env_one_missing world0) = None \<and>
   Print (''  [ERROR] Error exporting income_band_churn: '' @ no_such_table ''income_band_churn'')
     \<in> set (events_since world0 (snd (main env_one_missing world0))) \<and>
   Print ''  [ERROR] Error exporting income_band_churn: View does not exist''
     \<notin> set (events_since world0 (snd (main env_one_missing world0))) \<and>
   Print ''    Hint: Make sure you've run views.sql first''
     \<notin> set (events_since world0 (snd (main env_one_missing world0))) \<and>
   Print ([CHR 0x0A] @ ''Summary: 10/11 views exported successfully'')
     \<in> set (events_since world0 (snd (main env_one_missing world0))) \<and>
   filter is_query (events_since world0 (snd (main env_one_missing world0))) =
     map (\<lambda>view. Query 0 (select_all view)) VIEWS \<and>
   length (filter is_to_csv (events_since world0 (snd (main env_one_missing world0)))) = 10"
proof -
  let ?evs = "events_since world0 (snd (main env_one_missing world0))"
  have h1: "path_exists env_one_missing DB_FILE"
    and h2: "mkdir_fault env_one_missing RESULTS_DIR = None"
    and h3: "connect_fault env_one_missing DB_FILE = None"
    by (simp_all add: env_one_missing_def)
  have h4: "''income_band_churn'' \<in> set VIEWS"
    by (simp add: VIEWS_def)
  have h5: "read_sql env_one_missing (select_all ''income_band_churn'')
     = Inl (DatabaseError (no_such_table ''income_band_churn''))"
    by (simp add: one_missing_read)
  have w: "to_csv_fault env_one_missing p = None" for p
    by (simp add: env_one_missing_def)
  have h6: "\<forall>view \<in> set VIEWS. view \<noteq> ''income_band_churn'' \<longrightarrow>
        (\<exists>df. read_sql env_one_missing (select_all view) = Inr df) \<and>
        to_csv_fault env_one_missing (csv_path_of view) = None"
    by (simp add: one_missing_read w)
  have n: "next_handle world0 = 0"
    by (simp add: world0_def)
  note m = main_one_view_fails [OF h1 h2 h3 h4 h5 h6, of world0]
  note m1 = m [THEN conjunct1]
  note m2 = m [THEN conjunct2, THEN conjunct1]
  note m4 = m [THEN conjunct2, THEN conjunct2, THEN conjunct2, THEN conjunct1]
  note m6 = m [THEN conjunct2, THEN conjunct2, THEN conjunct2, THEN conjunct2, THEN conjunct2]
  have q: "filter is_query ?evs = map (\<lambda>view. Query 0 (select_all view)) VIEWS"
    using m4 by (simp only: n)
  have evs: "?evs = preamble 0 @ concat (map (export_events env_one_missing 0) VIEWS) @
      epilogue env_one_missing 0 (length (filter (export_succeeds env_one_missing) VIEWS))"
    using main_events [OF h1 h2 h3, of world0] by (simp only: n)
  have "Print (''  [ERROR] Error exporting income_band_churn: '' @ no_such_table ''income_band_churn'')
      \<in> set (export_events env_one_missing 0 ''income_band_churn'')"
    by (simp add: one_missing_events)
  with h4 have g: "Print (''  [ERROR] Error exporting income_band_churn: ''
      @ no_such_table ''income_band_churn'') \<in> set ?evs"
    unfolding evs set_append set_concat set_map by blast
  have d1: "Print ''  [ERROR] Error exporting income_band_churn: View does not exist''
      \<notin> set (export_events env_one_missing 0 v)" for v
    by (simp add: one_missing_events ok_line_def no_such_table_def)
  have d2: "Print ''  [ERROR] Error exporting income_band_churn: View does not exist''
      \<notin> set (preamble 0)"
    by (simp add: preamble_def banner_def rule70_Cons)
  have d3: "Print ''  [ERROR] Error exporting income_band_churn: View does not exist''
      \<notin> set (epilogue env_one_missing 0 k)" for k
    by (simp add: epilogue_def summary_line_def rule70_Cons)
  have d: "Print ''  [ERROR] Error exporting income_band_churn: View does not exist''
      \<notin> set ?evs"
    unfolding evs set_append set_concat set_map using d1 d2 d3 by blast
  have t1: "Print ''    Hint: Make sure you've run views.sql first''
      \<notin> set (export_events env_one_missing 0 v)" for v
    by (simp add: one_missing_events ok_line_def)
  have t2: "Print ''    Hint: Make sure you've run views.sql first'' \<notin> set (preamble 0)"
    by (simp add: preamble_def banner_def rule70_Cons)
  have t3: "Print ''    Hint: Make sure you've run views.sql first''
      \<notin> set (epilogue env_one_missing 0 k)" for k
    by (simp add: epilogue_def summary_line_def rule70_Cons)
  have t: "Print ''    Hint: Make sure you've run views.sql first'' \<notin> set ?evs"
    unfolding evs set_append set_concat set_map using t1 t2 t3 by blast
  show ?thesis
    using m1 g d t m2 q m6 by simp
qed

section \<open>Facts about dashboard.py\<close>

lemmas load_defs = load_view_fn_def load_view_try_def connect_def read_sql_query_def close_def
  emit_def and_then_def st_def pure_def

text \<open>
  Claim C1. \<open>load_view\<close> never raises: whatever the connection and the query do, it
  returns a frame, which is the table of the query when both succeed and the empty frame
  \<open>pd.DataFrame()\<close> when either fails. This holds of the function as written and of the
  decorated function on a name that is not in the cache.
\<close>

theorem load_view_never_raises:
  "fst (load_view_fn e view_name w) =
     Inr (case connect_fault e DB_FILE of
            Some f \<Rightarrow> empty_DataFrame
          | None \<Rightarrow>
              (case read_sql e (select_all view_name) of
                 Inl f \<Rightarrow> empty_DataFrame
               | Inr df \<Rightarrow> df)) \<and>
   (cache s view_name = None \<longrightarrow>
      fst (load_view e view_name s) =
        Inr (case connect_fault e DB_FILE of
               Some f \<Rightarrow> empty_DataFrame
             | None \<Rightarrow>
                 (case read_sql e (select_all view_name) of
                    Inl f \<Rightarrow> empty_DataFrame
                  | Inr df \<Rightarrow> df)))"
  by (simp add: load_view_def cache_data_def load_defs select_all_def
      split: option.splits sum.splits prod.splits)

theorem load_view_never_raises_witness:
  "cache session0 ''income_band_churn'' = None \<and>
   fst (load_view env_one_missing ''income_band_churn'' session0) = Inr empty_DataFrame \<and>
   fst (load_view_fn env_one_missing ''overall_kpis'' world0) = Inr sample_table"
  using load_view_never_raises [of env_one_missing "''income_band_churn''" world0 session0]
    load_view_never_raises [of env_one_missing "''overall_kpis''" world0 session0]
  by (simp add: session0_def env_one_missing_def select_all_def DB_FILE_def)

text \<open>
  Claim C4. With the database present and the view \<open>income_band_churn\<close> missing, a call of
  \<open>load_view\<close> opens a connection, sends the query, shows the error and returns: the
  connection is never closed, because \<open>conn.close()\<close> stands inside the \<open>try\<close> after the
  query and there is no \<open>finally\<close>. On the success path the three events are connect,
  query, close.
\<close>

theorem load_view_leaks_connection:
  "trace (snd (load_view_fn env_one_missing ''income_band_churn'' world0)) =
     [Connect ''bank.db'' 0,
      Query 0 ''SELECT * FROM income_band_churn'',
      Ui (ErrorBox (''Error loading income_band_churn: '' @ no_such_table ''income_band_churn''))] \<and>
   Close 0 \<notin> set (trace (snd (load_view_fn env_one_missing ''income_band_churn'' world0))) \<and>
   trace (snd (load_view_fn env_one_missing ''overall_kpis'' world0)) =
     [Connect ''bank.db'' 0, Query 0 ''SELECT * FROM overall_kpis'', Close 0]"
  by (simp add: load_defs env_one_missing_def world0_def DB_FILE_def)

lemma digit_chars:
  "digit_char 0 = CHR ''0''" "digit_char 1 = CHR ''1''" "digit_char 2 = CHR ''2''"
  "digit_char 3 = CHR ''3''" "digit_char 4 = CHR ''4''" "digit_char 5 = CHR ''5''"
  "digit_char 6 = CHR ''6''" "digit_char 7 = CHR ''7''" "digit_char 8 = CHR ''8''"
  "digit_char 9 = CHR ''9''" "digit_char (Suc 0) = CHR ''1''"
  by code_simp+

lemma format_customers: "format_int_comma 12345 = ''12,345''"
  by (simp add: format_int_comma_def group3.simps str_nat.simps digit_chars)

lemma format_churn: "format_fixed False (Suc 0) False 29 (- 2) = ''7.2''"
  by (simp add: format_fixed_def round_half_even_def Let_def group3.simps str_nat.simps
      digit_chars)

lemma format_avg: "format_fixed True 2 False 2469 (- 1) = ''1,234.50''"
  by (simp add: format_fixed_def round_half_even_def Let_def group3.simps str_nat.simps
      digit_chars)

lemma bit_len_total: "bit_len 9876543 = 24"
  by (simp add: bit_len.simps)

lemma float_of_total: "float_of_int 9876543 = Inr (False, 9876543, 0)"
  by (simp add: float_of_int_def bit_len_total round_half_even_def Let_def)

lemma format_total: "format_fixed True 0 False 9876543 0 = ''9,876,543''"
  by (simp add: format_fixed_def Let_def group3.simps str_nat.simps digit_chars)

lemma kpi_example_cells:
  "column_first kpi_example ''total_customers'' = Inr (IntV 12345)"
  "column_first kpi_example ''overall_churn_rate_pct'' = Inr (FloatV False 29 (- 2))"
  "column_first kpi_example ''avg_balance'' = Inr (FloatV False 2469 (- 1))"
  "column_first kpi_example ''total_balance'' = Inr (IntV 9876543)"
  by (simp_all add: column_first_def kpi_example_def)

lemma kpi_strip_example_widgets:
  "widgets_of (added s (snd (kpi_strip lib kpi_example s))) =
     [Header ([CHR 0xF0, CHR 0x9F, CHR 0x93, CHR 0x88] @ '' Key Performance Indicators''),
      Columns 4,
      Metric ''Total Customers'' ''12,345'',
      Metric ''Overall Churn Rate'' ''7.2%'',
      Metric ''Average Balance'' ''$1,234.50'',
      Metric ''Total Balance'' ''$9,876,543'']"
  by (simp add: kpi_strip_def metric_total_customers_def metric_churn_rate_def
      metric_avg_balance_def metric_total_balance_def kpi_example_cells format_customers
      format_churn format_avg float_of_total format_total lift_def and_then_def st_def emit_def added_def)

text \<open>
  Claim C6, as the code has it. For the row with 12345 customers, churn rate 7.25, average
  balance 1234.5 and total balance 9876543, the KPI strip shows \<open>12,345\<close>, \<open>7.2%\<close>,
  \<open>$1,234.50\<close> and \<open>$9,876,543\<close>: 7.25 is a binary fraction halfway between 7.2 and 7.3,
  and the format \<open>.1f\<close> rounds such a tie to the even digit.
\<close>

theorem kpi_strip_example:
  "fst (kpi_strip lib kpi_example s) = Inr () \<and>
   widgets_of (added s (snd (kpi_strip lib kpi_example s))) =
     [Header ([CHR 0xF0, CHR 0x9F, CHR 0x93, CHR 0x88] @ '' Key Performance Indicators''),
      Columns 4,
      Metric ''Total Customers'' ''12,345'',
      Metric ''Overall Churn Rate'' ''7.2%'',
      Metric ''Average Balance'' ''$1,234.50'',
      Metric ''Total Balance'' ''$9,876,543'']"
  by (simp add: kpi_strip_def metric_total_customers_def metric_churn_rate_def
      metric_avg_balance_def metric_total_balance_def kpi_example_cells format_customers
      format_churn format_avg float_of_total format_total lift_def and_then_def st_def emit_def added_def)

text \<open>The string \<open>7.3%\<close> of the specification is not among the elements shown.\<close>

theorem kpi_strip_example_not_7_3:
  "Metric ''Overall Churn Rate'' ''7.3%''
     \<notin> set (widgets_of (added session0 (snd (kpi_strip pylib0 kpi_example session0))))"
  by (simp add: kpi_strip_example_widgets)





subsection \<open>The cache\<close>

lemma queries_of_append:
  "queries_of v (xs @ ys) = queries_of v xs + queries_of v ys"
  by (simp add: queries_of_def)

lemma queries_of_Ui: "queries_of v (map Ui ws) = 0"
  by (induction ws) (simp_all add: queries_of_def)

lemma uses_connection_Ui: "filter uses_connection (map Ui ws) = []"
  by (induction ws) simp_all

lemma keeps_pure: "keeps (pure x)"
  by (simp add: keeps_def pure_def)

lemma keeps_st_stop: "keeps st_stop"
  by (simp add: keeps_def st_stop_def)

lemma keeps_lift: "keeps (lift r)"
  by (simp add: keeps_def lift_def split: sum.splits)

lemma keeps_st: "keeps (st wd)"
  by (simp add: keeps_def st_def emit_def cache_inv_def queries_of_def)

lemma keeps_and_then:
  assumes "keeps m" and "\<And>x. keeps (k x)"
  shows "keeps (and_then m k)"
  unfolding keeps_def
proof (intro allI impI)
  fix s :: session
  assume "cache_inv s"
  with assms(1) have i: "cache_inv (snd (m s))"
    by (simp add: keeps_def)
  show "cache_inv (snd (and_then m k s))"
  proof (cases "m s")
    case (Pair r s')
    with i have i': "cache_inv s'"
      by simp
    show ?thesis
    proof (cases r)
      case (Inl sig)
      with Pair i' show ?thesis
        by (simp add: and_then_def)
    next
      case (Inr x)
      from assms(2) [of x] i' have "cache_inv (snd (k x s'))"
        by (simp add: keeps_def)
      with Pair Inr show ?thesis
        by (simp add: and_then_def)
    qed
  qed
qed

lemma keeps_only_if: "keeps m \<Longrightarrow> keeps (only_if b m)"
  by (simp add: only_if_def keeps_pure)

lemma keeps_run_all_Nil: "keeps (run_all [])"
  by (simp add: keeps_def)

lemma keeps_run_all_Cons:
  assumes "keeps m" and "keeps (run_all ms)"
  shows "keeps (run_all (m # ms))"
  unfolding keeps_def
proof (intro allI impI)
  fix s :: session
  assume "cache_inv s"
  with assms(1) have i: "cache_inv (snd (m s))"
    by (simp add: keeps_def)
  show "cache_inv (snd (run_all (m # ms) s))"
  proof (cases "m s")
    case (Pair r s')
    with i have i': "cache_inv s'"
      by simp
    show ?thesis
    proof (cases r)
      case (Inl sig)
      with Pair i' show ?thesis
        by simp
    next
      case (Inr x)
      from assms(2) i' have "cache_inv (snd (run_all ms s'))"
        by (simp add: keeps_def)
      with Pair Inr show ?thesis
        by simp
    qed
  qed
qed

lemma keeps_plotly_chart: "keeps (plotly_chart lib chart df)"
  using keeps_st [of "PlotlyChart chart df"]
  by (simp add: keeps_def plotly_chart_def split: option.splits)

lemma keeps_need_column: "keeps (need_column df name)"
  by (simp add: need_column_def keeps_pure keeps_lift)

lemma load_view_fn_effect:
  fixes s :: session
  shows "\<exists>evs df. fst (load_view_fn e v s) = Inr df \<and>
           trace (snd (load_view_fn e v s)) = trace s @ evs \<and>
           cache (snd (load_view_fn e v s)) = cache s \<and>
           queries_of v evs \<le> 1 \<and> (\<forall>u. u \<noteq> v \<longrightarrow> queries_of u evs = 0)"
proof (cases "connect_fault e DB_FILE")
  case (Some f)
  then show ?thesis
    by (simp add: load_defs queries_of_def)
next
  case None
  show ?thesis
  proof (cases "read_sql e (''SELECT * FROM '' @ v)")
    case (Inl f)
    with None show ?thesis
      by (simp add: load_defs queries_of_def)
  next
    case (Inr df)
    with None show ?thesis
      by (simp add: load_defs queries_of_def)
  qed
qed

lemma load_view_miss:
  assumes "cache s v = None"
  shows "\<exists>evs df. fst (load_view e v s) = Inr df \<and>
           trace (snd (load_view e v s)) = trace s @ evs \<and>
           cache (snd (load_view e v s)) = (cache s)(v := Some (df, widgets_of evs)) \<and>
           queries_of v evs \<le> 1 \<and> (\<forall>u. u \<noteq> v \<longrightarrow> queries_of u evs = 0)"
proof -
  obtain evs df where f: "fst (load_view_fn e v s) = Inr df"
    and t: "trace (snd (load_view_fn e v s)) = trace s @ evs"
    and c: "cache (snd (load_view_fn e v s)) = cache s"
    and q: "queries_of v evs \<le> 1" "\<forall>u. u \<noteq> v \<longrightarrow> queries_of u evs = 0"
    using load_view_fn_effect [of e v s] by blast
  obtain r s' where p: "load_view_fn e v s = (r, s')"
    by (cases "load_view_fn e v s")
  with f t c have "r = Inr df" "trace s' = trace s @ evs" "cache s' = cache s"
    by simp_all
  with p assms q show ?thesis
    by (simp add: load_view_def cache_data_def)
qed

lemma keeps_load_view: "keeps (load_view e v)"
  unfolding keeps_def
proof (intro allI impI)
  fix s :: session
  assume i: "cache_inv s"
  show "cache_inv (snd (load_view e v s))"
  proof (cases "cache s v")
    case (Some c)
    obtain df shown where c: "c = (df, shown)"
      by (cases c)
    from i show ?thesis
      by (simp add: load_view_def cache_data_def Some c cache_inv_def queries_of_append
          queries_of_Ui)
  next
    case None
    obtain evs df where t: "trace (snd (load_view e v s)) = trace s @ evs"
      and k: "cache (snd (load_view e v s)) = (cache s)(v := Some (df, widgets_of evs))"
      and q: "queries_of v evs \<le> 1" and o: "\<forall>u. u \<noteq> v \<longrightarrow> queries_of u evs = 0"
      using load_view_miss [OF None, of e] by blast
    from i None have z: "queries_of v (trace s) = 0"
      by (simp add: cache_inv_def)
    show ?thesis
      unfolding cache_inv_def
    proof (intro allI)
      fix u
      show "(cache (snd (load_view e v s)) u = None \<longrightarrow>
               queries_of u (trace (snd (load_view e v s))) = 0) \<and>
            queries_of u (trace (snd (load_view e v s))) \<le> 1"
      proof (cases "u = v")
        case True
        with q z show ?thesis
          by (simp add: t k queries_of_append)
      next
        case False
        with o have "queries_of u evs = 0"
          by simp
        with i False show ?thesis
          by (simp add: t k queries_of_append cache_inv_def)
      qed
    qed
  qed
qed

lemmas keeps_intros = keeps_and_then keeps_run_all_Cons keeps_run_all_Nil keeps_only_if
  keeps_st keeps_st_stop keeps_lift keeps_pure keeps_plotly_chart keeps_need_column
  keeps_load_view

lemma keeps_chart_panel: "keeps (chart_panel e lib heading view_name chart)"
  unfolding chart_panel_def by (intro keeps_intros)

lemma keeps_kpi_strip: "keeps (kpi_strip lib df)"
  unfolding kpi_strip_def metric_total_customers_def metric_churn_rate_def
    metric_avg_balance_def metric_total_balance_def
  by (intro keeps_intros)

lemma keeps_tab1: "keeps (tab1 e lib)"
  unfolding tab1_def by (intro keeps_intros keeps_chart_panel)

lemma keeps_tab2: "keeps (tab2 e lib)"
  unfolding tab2_def by (intro keeps_intros keeps_chart_panel)

lemma keeps_tab3: "keeps (tab3 e lib)"
  unfolding tab3_def high_value_panel_def by (intro keeps_intros keeps_chart_panel)

lemma keeps_tab4: "keeps (tab4 e lib)"
  unfolding tab4_def by (intro keeps_intros)

lemma keeps_tab5: "keeps (tab5 e selected_view)"
  unfolding tab5_def by (intro keeps_intros)

lemma keeps_report_body: "keeps (report_body e lib selected_view)"
  unfolding report_body_def
  by (intro keeps_intros keeps_kpi_strip keeps_tab1 keeps_tab2 keeps_tab3 keeps_tab4 keeps_tab5)

lemma keeps_report_except: "keeps (report_except f)"
  by (cases f) (simp_all add: report_except_def keeps_intros)

lemma keeps_report: "keeps (report e lib selected_view)"
  unfolding keeps_def
proof (intro allI impI)
  fix s :: session
  assume "cache_inv s"
  with keeps_report_body [of e lib selected_view]
  have i: "cache_inv (snd (report_body e lib selected_view s))"
    by (simp add: keeps_def)
  show "cache_inv (snd (report e lib selected_view s))"
  proof (cases "report_body e lib selected_view s")
    case (Pair r s')
    with i have i': "cache_inv s'"
      by simp
    show ?thesis
    proof (cases r)
      case (Inr x)
      with Pair i' show ?thesis
        by (simp add: report_def)
    next
      case (Inl sig)
      show ?thesis
      proof (cases sig)
        case StopScript
        with Pair Inl i' show ?thesis
          by (simp add: report_def)
      next
        case (Raised f)
        from keeps_report_except [of f] i' have "cache_inv (snd (report_except f s'))"
          by (simp add: keeps_def)
        with Pair Inl Raised show ?thesis
          by (simp add: report_def)
      qed
    qed
  qed
qed

lemma keeps_dashboard: "keeps (dashboard e lib selected_view)"
  unfolding dashboard_def by (intro keeps_intros keeps_report)

lemma cache_inv_session0: "cache_inv session0"
  by (simp add: cache_inv_def session0_def queries_of_def)

lemma cache_inv_run_session:
  "cache_inv s \<Longrightarrow> cache_inv (run_session e lib selections s)"
proof (induction selections arbitrary: s)
  case Nil
  then show ?case
    by simp
next
  case (Cons a selections)
  from keeps_dashboard [of e lib a] Cons.prems have "cache_inv (snd (dashboard e lib a s))"
    by (simp add: keeps_def)
  then show ?case
    by (simp add: Cons.IH)
qed

lemma load_view_fills_cache:
  "\<exists>df shown. fst (load_view e v s) = Inr df \<and> cache (snd (load_view e v s)) v = Some (df, shown)"
proof (cases "cache s v")
  case (Some c)
  then show ?thesis
    by (cases c) (simp add: load_view_def cache_data_def)
next
  case None
  from load_view_miss [OF None, of e] show ?thesis
    by auto
qed

text \<open>
  Claim C9. In a session that starts with an empty cache, whatever the user selects from
  run to run and whatever the database and the libraries answer, the trace holds at most
  one query of each view. And a second request of a name, right after a first, in any
  state: it uses no connection and returns what the first returned.
\<close>

theorem cache_answers_repeated_request:
  "queries_of view_name (trace (run_session e lib selections session0)) \<le> 1 \<and>
   filter uses_connection
     (added (snd (load_view e view_name s))
        (snd (load_view e view_name (snd (load_view e view_name s))))) = [] \<and>
   fst (load_view e view_name (snd (load_view e view_name s))) = fst (load_view e view_name s)"
proof -
  have "cache_inv (run_session e lib selections session0)"
    by (rule cache_inv_run_session [OF cache_inv_session0])
  then have a: "queries_of view_name (trace (run_session e lib selections session0)) \<le> 1"
    by (simp add: cache_inv_def)
  obtain df shown where f: "fst (load_view e view_name s) = Inr df"
    and c: "cache (snd (load_view e view_name s)) view_name = Some (df, shown)"
    using load_view_fills_cache [of e view_name s] by blast
  have b: "filter uses_connection
     (added (snd (load_view e view_name s))
        (snd (load_view e view_name (snd (load_view e view_name s))))) = []"
    by (simp add: load_view_def [of e] cache_data_def [of _ _ "snd (cache_data (load_view_fn e) view_name s)"]
        c [unfolded load_view_def] added_def uses_connection_Ui)
  have d: "fst (load_view e view_name (snd (load_view e view_name s))) = Inr df"
    by (simp add: load_view_def [of e] cache_data_def [of _ _ "snd (cache_data (load_view_fn e) view_name s)"]
        c [unfolded load_view_def])
  from a b d f show ?thesis
    by simp
qed

theorem cache_answers_repeated_request_witness:
  "queries_of ''overall_kpis''
     (trace (run_session env_no_db pylib0 [''Overall KPIs'', ''Overall KPIs''] session0)) = 1"
proof -
  have "queries_of ''overall_kpis''
      (trace (run_session env_no_db pylib0 [''Overall KPIs'', ''Overall KPIs''] session0)) \<ge> 1"
    by (simp add: dashboard_def report_def report_body_def load_view_def cache_data_def
        load_defs only_if_def st_stop_def is_empty_def empty_DataFrame_def session0_def
        env_no_db_def queries_of_def DB_FILE_def)
  with cache_answers_repeated_request
    [of "''overall_kpis''" env_no_db pylib0 "[''Overall KPIs'', ''Overall KPIs'']"]
  show ?thesis
    by simp
qed

end
